theory Spec2Isabelle
  imports Complex_Main "HOL-Library.Multiset"
begin

section \<open>The C++ type double\<close>

text \<open>
  A value of type double is a finite number, one of the two infinities, or NaN.
  Finite values are idealised as real numbers: rounding, overflow to infinity and the
  sign of zero are not modelled (a zero divisor counts as +0). What is modelled is
  where the operations of the source leave the finite numbers: division by zero,
  the logarithm of zero, arithmetic on infinities, and NaN, which every
  comparison answers with false.
\<close>

datatype double = Fin real | PInf | MInf | NaN

instantiation double :: "{plus, minus, uminus, times, inverse, ord}"
begin

fun uminus_double :: "double \<Rightarrow> double" where
  "uminus_double (Fin a) = Fin (- a)"
| "uminus_double PInf = MInf"
| "uminus_double MInf = PInf"
| "uminus_double NaN = NaN"

fun plus_double :: "double \<Rightarrow> double \<Rightarrow> double" where
  "plus_double (Fin a) (Fin b) = Fin (a + b)"
| "plus_double NaN y = NaN"
| "plus_double x NaN = NaN"
| "plus_double PInf MInf = NaN"
| "plus_double MInf PInf = NaN"
| "plus_double PInf y = PInf"
| "plus_double MInf y = MInf"
| "plus_double x PInf = PInf"
| "plus_double x MInf = MInf"

definition minus_double :: "double \<Rightarrow> double \<Rightarrow> double" where
  "minus_double x y = x + (- y)"

fun times_double :: "double \<Rightarrow> double \<Rightarrow> double" where
  "times_double (Fin a) (Fin b) = Fin (a * b)"
| "times_double NaN y = NaN"
| "times_double x NaN = NaN"
| "times_double PInf PInf = PInf"
| "times_double PInf MInf = MInf"
| "times_double MInf PInf = MInf"
| "times_double MInf MInf = PInf"
| "times_double PInf (Fin b) = (if b = 0 then NaN else if 0 < b then PInf else MInf)"
| "times_double MInf (Fin b) = (if b = 0 then NaN else if 0 < b then MInf else PInf)"
| "times_double (Fin a) PInf = (if a = 0 then NaN else if 0 < a then PInf else MInf)"
| "times_double (Fin a) MInf = (if a = 0 then NaN else if 0 < a then MInf else PInf)"

fun divide_double :: "double \<Rightarrow> double \<Rightarrow> double" where
  "divide_double (Fin a) (Fin b) =
     (if b = 0 then (if a = 0 then NaN else if 0 < a then PInf else MInf)
      else Fin (a / b))"
| "divide_double NaN y = NaN"
| "divide_double x NaN = NaN"
| "divide_double (Fin a) PInf = Fin 0"
| "divide_double (Fin a) MInf = Fin 0"
| "divide_double PInf (Fin b) = (if 0 \<le> b then PInf else MInf)"
| "divide_double MInf (Fin b) = (if 0 \<le> b then MInf else PInf)"
| "divide_double PInf PInf = NaN"
| "divide_double PInf MInf = NaN"
| "divide_double MInf PInf = NaN"
| "divide_double MInf MInf = NaN"

definition inverse_double :: "double \<Rightarrow> double" where
  "inverse_double x = divide (Fin 1) x"

fun less_double :: "double \<Rightarrow> double \<Rightarrow> bool" where
  "less_double (Fin a) (Fin b) = (a < b)"
| "less_double NaN y = False"
| "less_double x NaN = False"
| "less_double x MInf = False"
| "less_double PInf y = False"
| "less_double MInf y = True"
| "less_double x PInf = True"

fun less_eq_double :: "double \<Rightarrow> double \<Rightarrow> bool" where
  "less_eq_double (Fin a) (Fin b) = (a \<le> b)"
| "less_eq_double NaN y = False"
| "less_eq_double x NaN = False"
| "less_eq_double MInf y = True"
| "less_eq_double x PInf = True"
| "less_eq_double x MInf = False"
| "less_eq_double PInf y = False"

instance ..

end

text \<open>\<^verbatim>\<open>std::fabs\<close>, \<^verbatim>\<open>std::log\<close> and \<^verbatim>\<open>std::max\<close> (which returns its first
  argument unless it is less than the second, so a NaN first argument is returned).\<close>

fun fabs :: "double \<Rightarrow> double" where
  "fabs (Fin a) = Fin \<bar>a\<bar>"
| "fabs PInf = PInf"
| "fabs MInf = PInf"
| "fabs NaN = NaN"

fun std_log :: "double \<Rightarrow> double" where
  "std_log (Fin a) = (if a = 0 then MInf else if a < 0 then NaN else Fin (ln a))"
| "std_log PInf = PInf"
| "std_log MInf = NaN"
| "std_log NaN = NaN"

definition std_max :: "double \<Rightarrow> double \<Rightarrow> double" where
  "std_max a b = (if a < b then b else a)"

section \<open>Containers and iterators\<close>

text \<open>A \<^verbatim>\<open>std::vector\<close> is a list and an iterator into it an index; the past-the-end
  iterator is the length. Dereferencing it has no value.\<close>

datatype error = AssertionFailure | PastTheEnd

fun find_if :: "('a \<Rightarrow> bool) \<Rightarrow> 'a list \<Rightarrow> nat" where
  "find_if P [] = 0"
| "find_if P (x # xs) = (if P x then 0 else Suc (find_if P xs))"

fun count_if :: "('a \<Rightarrow> bool) \<Rightarrow> 'a list \<Rightarrow> nat" where
  "count_if P [] = 0"
| "count_if P (x # xs) = (if P x then Suc (count_if P xs) else count_if P xs)"

definition deref :: "'a list \<Rightarrow> nat \<Rightarrow> error + 'a" where
  "deref xs it = (if it < length xs then Inr (xs ! it) else Inl PastTheEnd)"

definition erase :: "'a list \<Rightarrow> nat \<Rightarrow> 'a list" where
  "erase xs it = take it xs @ drop (Suc it) xs"

definition insert_begin :: "'a list \<Rightarrow> 'a list \<Rightarrow> 'a list" where
  "insert_begin xs new = new @ xs"

section \<open>utils.h\<close>

text \<open>The template \<^verbatim>\<open>utils::pow<exponent>\<close>, with its specialisation at 0.\<close>

fun utils_pow :: "nat \<Rightarrow> double \<Rightarrow> double" where
  "utils_pow exponent base =
     (if exponent = 0 then Fin 1
      else utils_pow (exponent div 2) (base * base) * (if 0 < exponent mod 2 then base else Fin 1))"

text \<open>Modelled from the spec: \<^verbatim>\<open>pow2\<close> and \<^verbatim>\<open>pow3\<close> are used by
  PairProductionLosses.cpp and declared in a header that is not among the sources; the
  spec reads them as the square and the cube, here through \<^verbatim>\<open>utils::pow\<close>.\<close>

definition pow2 :: "double \<Rightarrow> double" where
  "pow2 x = utils_pow 2 x"

definition pow3 :: "double \<Rightarrow> double" where
  "pow3 x = utils_pow 3 x"

section \<open>PairProductionLosses.cpp\<close>

type_synonym PID = int

text \<open>\<^verbatim>\<open>PairProductionLosses::dlnGamma_dt\<close>. Its two collaborators are arguments:
  \<^verbatim>\<open>dotGamma\<close>, whose body integrates over the photon fields with a quadrature routine that
  is not among the sources, and the accessor \<^verbatim>\<open>getPidNucleusCharge\<close>, whose integer
  result is cast to double.\<close>

definition dlnGamma_dt ::
  "(double \<Rightarrow> double) \<Rightarrow> (PID \<Rightarrow> int) \<Rightarrow> PID \<Rightarrow> double \<Rightarrow> double \<Rightarrow> double" where
  "dlnGamma_dt dotGamma getPidNucleusCharge pid Gamma z =
     (let b_l = pow3 (Fin 1 + z) * dotGamma (Gamma * (Fin 1 + z));
          Z = Fin (real_of_int (getPidNucleusCharge pid));
          A = Fin (real_of_int (getPidNucleusCharge pid));
          b_l = b_l * (pow2 Z / A)
      in std_max b_l (Fin 0))"

section \<open>evolveProtons.cpp\<close>

record Particle =
  getPid :: PID
  getRedshift :: double
  getGamma :: double

text \<open>The members of \<^verbatim>\<open>Evolutor\<close> that the run only reads. The cosmology, the
  photo-pion interaction, the loss processes, the generator's call operator and
  \<^verbatim>\<open>Particle::IsNucleus\<close> are virtual or declared elsewhere: they are fields here.
  \<^typ>\<open>'g\<close> is the state of the random number generator.\<close>

record 'g Evolutor =
  m_cosmology_dtdz :: "double \<Rightarrow> double"
  m_pppcmb_rate :: "PID \<Rightarrow> double \<Rightarrow> double \<Rightarrow> double"
  m_pppcmb_finalState :: "Particle \<Rightarrow> double \<Rightarrow> 'g \<Rightarrow> Particle list \<times> 'g"
  m_continuousLosses :: "(PID \<Rightarrow> double \<Rightarrow> double \<Rightarrow> double) list"
  m_rng_call :: "'g \<Rightarrow> double \<times> 'g"
  IsNucleus :: "PID \<Rightarrow> bool"

text \<open>What the run changes: the particle stack, the generator and the output file
  (one record per iteration, the particle as it was selected).\<close>

record 'g RunState =
  m_stack :: "Particle list"
  m_rng :: 'g
  out :: "Particle list"

definition deltaGammaCritical :: double where
  "deltaGammaCritical = Fin 0.1"

definition IsActive :: "'g Evolutor \<Rightarrow> Particle \<Rightarrow> bool" where
  "IsActive ev p =
     (let minPropagatingGamma = Fin (10 ^ 7)
      in IsNucleus ev (getPid p) \<and> getRedshift p > Fin (1 / 10 ^ 20) \<and> getGamma p > minPropagatingGamma)"

definition computeStochasticRedshiftInterval :: "'g Evolutor \<Rightarrow> Particle \<Rightarrow> double \<Rightarrow> double" where
  "computeStochasticRedshiftInterval ev particle r =
     (let pid = getPid particle;
          zNow = getRedshift particle;
          Gamma = getGamma particle;
          dtdz = m_cosmology_dtdz ev zNow;
          lambda_s = fabs (Fin 1 / m_pppcmb_rate ev pid Gamma zNow / dtdz)
      in - lambda_s * std_log (Fin 1 - r))"

text \<open>The loop of \<^verbatim>\<open>computeDeltaGamma\<close> over the loss processes, with its three
  accumulators.\<close>

fun lossesLoop ::
  "(PID \<Rightarrow> double \<Rightarrow> double \<Rightarrow> double) list \<Rightarrow> PID \<Rightarrow> double \<Rightarrow> double \<Rightarrow> double \<Rightarrow>
     double \<times> double \<times> double \<Rightarrow> double \<times> double \<times> double" where
  "lossesLoop [] pid Gamma zNow dz acc = acc"
| "lossesLoop (losses # rest) pid Gamma zNow dz (dlnGammaNow, dlnGammaHalf, dlnGammaNext) =
     (let dlnGammaNow = dlnGammaNow + losses pid Gamma zNow;
          halfRedshift = zNow - Fin 0.5 * dz;
          dlnGammaHalf = dlnGammaHalf + losses pid Gamma halfRedshift;
          nextRedshift = zNow - dz;
          dlnGammaNext = dlnGammaNext + losses pid Gamma nextRedshift
      in lossesLoop rest pid Gamma zNow dz (dlnGammaNow, dlnGammaHalf, dlnGammaNext))"

definition computeDeltaGamma :: "'g Evolutor \<Rightarrow> Particle \<Rightarrow> double \<Rightarrow> double" where
  "computeDeltaGamma ev particle dz =
     (let pid = getPid particle;
          zNow = getRedshift particle;
          Gamma = getGamma particle;
          dtdz = m_cosmology_dtdz ev zNow;
          (dlnGammaNow, dlnGammaHalf, dlnGammaNext) =
             lossesLoop (m_continuousLosses ev) pid Gamma zNow dz (Fin 0, Fin 0, Fin 0)
      in dz / Fin 6 * dtdz * (dlnGammaNow + Fin 4 * dlnGammaHalf + dlnGammaNext))"

text \<open>Modelled from the spec: \<^verbatim>\<open>utils::rootFinder\<close> is called by
  \<^verbatim>\<open>computeLossesRedshiftInterval\<close> and defined in a header that is not among the
  sources. The spec describes it as bisection-style root finding over the interval
  between its second and third argument, with an iteration budget and an absolute
  tolerance, which stops within the budget and returns its best estimate. Here the
  bracket is halved, keeping the half on which the function changes sign, until it is no
  wider than the tolerance or the budget is used up; the estimate is the midpoint of the
  bracket.\<close>

fun rootFinder :: "(double \<Rightarrow> double) \<Rightarrow> double \<Rightarrow> double \<Rightarrow> nat \<Rightarrow> double \<Rightarrow> double" where
  "rootFinder f xLower xUpper 0 tol = (xLower + xUpper) / Fin 2"
| "rootFinder f xLower xUpper (Suc maxIter) tol =
     (let xMid = (xLower + xUpper) / Fin 2
      in if xUpper - xLower \<le> tol then xMid
         else if f xLower * f xMid \<le> Fin 0 then rootFinder f xLower xMid maxIter tol
         else rootFinder f xMid xUpper maxIter tol)"

definition computeLossesRedshiftInterval :: "'g Evolutor \<Rightarrow> Particle \<Rightarrow> double" where
  "computeLossesRedshiftInterval ev particle =
     (let zNow = getRedshift particle;
          dz = zNow;
          deltaGamma = computeDeltaGamma ev particle zNow
      in if deltaGamma > deltaGammaCritical
         then rootFinder (\<lambda>x. computeDeltaGamma ev particle x - deltaGammaCritical)
                (Fin 0) zNow 100 (Fin (1 / 10 ^ 5))
         else dz)"

text \<open>One pass through the body of the loop of \<^verbatim>\<open>Evolutor::run\<close>, up to the
  recount of the active particles. The two \<^verbatim>\<open>assert\<close>s are checked.\<close>

definition iteration :: "'g Evolutor \<Rightarrow> 'g RunState \<Rightarrow> error + 'g RunState" where
  "iteration ev s =
     (let it = find_if (IsActive ev) (m_stack s)
      in case deref (m_stack s) it of
           Inl e \<Rightarrow> Inl e
         | Inr particle \<Rightarrow>
            (let out' = out s @ [particle];
                 nowRedshift = getRedshift particle;
                 (r, rng1) = m_rng_call ev (m_rng s);
                 dz_s = computeStochasticRedshiftInterval ev particle r
             in if dz_s > Fin 0 then
                  (let dz_c = computeLossesRedshiftInterval ev particle
                   in if dz_c > Fin 0 \<and> dz_c \<le> nowRedshift then
                        (if dz_s > dz_c \<or> dz_s > nowRedshift then
                           (let Gamma = getGamma particle;
                                dz = dz_c;
                                deltaGamma = computeDeltaGamma ev particle dz
                            in Inr (s\<lparr>m_stack := (m_stack s)
                                        [it := particle\<lparr>getRedshift := nowRedshift - dz,
                                                         getGamma := Gamma * (Fin 1 - deltaGamma)\<rparr>],
                                      m_rng := rng1, out := out'\<rparr>))
                         else
                           (let dz = dz_s;
                                (finalState, rng2) =
                                   m_pppcmb_finalState ev particle (nowRedshift - dz) rng1
                            in Inr (s\<lparr>m_stack := insert_begin (erase (m_stack s) it) finalState,
                                      m_rng := rng2, out := out'\<rparr>)))
                      else Inl AssertionFailure)
                else Inl AssertionFailure))"

text \<open>The loop of \<^verbatim>\<open>Evolutor::run\<close>; \<^verbatim>\<open>nActive\<close> is its loop variable. The loop
  need not end: not returning is the value \<open>None\<close>.\<close>

partial_function (option) runLoop ::
  "'g Evolutor \<Rightarrow> 'g RunState \<Rightarrow> nat \<Rightarrow> (error + 'g RunState) option" where
  "runLoop ev s nActive =
     (if 0 < nActive then
        (case iteration ev s of
           Inl e \<Rightarrow> Some (Inl e)
         | Inr s' \<Rightarrow> runLoop ev s' (count_if (IsActive ev) (m_stack s')))
      else Some (Inr s))"

definition run :: "'g Evolutor \<Rightarrow> 'g RunState \<Rightarrow> (error + 'g RunState) option" where
  "run ev s = runLoop ev s (count_if (IsActive ev) (m_stack s))"

section \<open>simprop.cpp\<close>

text \<open>The particle of simprop.cpp carries a redshift and an energy.\<close>

record SimParticle =
  sp_pid :: PID
  now_z :: double
  now_E :: double

text \<open>\<^verbatim>\<open>DoPropagate\<close>; the unit \<^verbatim>\<open>SI::eV\<close> is declared elsewhere and is an argument.\<close>

definition DoPropagate :: "double \<Rightarrow> SimParticle \<Rightarrow> bool" where
  "DoPropagate eV p =
     (let minPropagatingEnergy = eV
      in now_z p > Fin (1 / 10 ^ 20) \<and> now_E p > minPropagatingEnergy)"

text \<open>\<^verbatim>\<open>Evolve\<close> reads and writes through its iterator; \<^verbatim>\<open>cosmo::adiabaticRelativeLoss\<close>
  is declared elsewhere and is an argument.\<close>

definition Evolve ::
  "(double \<Rightarrow> double \<Rightarrow> double) \<Rightarrow> SimParticle list \<Rightarrow> nat \<Rightarrow> error + SimParticle list" where
  "Evolve adiabaticRelativeLoss m_particles it =
     (case deref m_particles it of
        Inl e \<Rightarrow> Inl e
      | Inr p \<Rightarrow>
         (let dz = Fin 0.01;
              currentRedshift = now_z p;
              newRedshift = std_max (currentRedshift - dz) (Fin 0);
              p = p\<lparr>now_z := newRedshift\<rparr>;
              currentEnergy = now_E p;
              p = p\<lparr>now_E := currentEnergy * adiabaticRelativeLoss currentRedshift newRedshift\<rparr>
          in Inr (m_particles[it := p])))"

text \<open>The loop of \<^verbatim>\<open>SimProp::run\<close>, from \<^verbatim>\<open>it = m_particles.begin()\<close>.\<close>

partial_function (option) simpropLoop ::
  "double \<Rightarrow> (double \<Rightarrow> double \<Rightarrow> double) \<Rightarrow> SimParticle list \<Rightarrow> nat \<Rightarrow>
     (error + SimParticle list) option" where
  "simpropLoop eV adiabaticRelativeLoss m_particles it =
     (if it \<noteq> length m_particles then
        (let it = find_if (DoPropagate eV) m_particles
         in case Evolve adiabaticRelativeLoss m_particles it of
              Inl e \<Rightarrow> Some (Inl e)
            | Inr m_particles' \<Rightarrow> simpropLoop eV adiabaticRelativeLoss m_particles' it)
      else Some (Inr m_particles))"

definition simprop_run ::
  "double \<Rightarrow> (double \<Rightarrow> double \<Rightarrow> double) \<Rightarrow> SimParticle list \<Rightarrow> (error + SimParticle list) option" where
  "simprop_run eV adiabaticRelativeLoss m_particles =
     simpropLoop eV adiabaticRelativeLoss m_particles 0"

section \<open>The quantities the specification names\<close>

text \<open>The summed loss rate \<open>R(z')\<close> of the specification: the sum, over the configured
  continuous-loss processes in their order, of \<^verbatim>\<open>dlnGamma_dt(pid, Gamma, z')\<close>.\<close>

definition summedLossRate ::
  "(PID \<Rightarrow> double \<Rightarrow> double \<Rightarrow> double) list \<Rightarrow> PID \<Rightarrow> double \<Rightarrow> double \<Rightarrow> double" where
  "summedLossRate processes pid Gamma z =
     foldl (\<lambda>total losses. total + losses pid Gamma z) (Fin 0) processes"

text \<open>The number of steps of \<^verbatim>\<open>Evolve\<close> that a redshift is away from 0: the measure
  by which the loop of \<^verbatim>\<open>SimProp::run\<close> ends.\<close>

fun stepsLeft :: "double \<Rightarrow> nat" where
  "stepsLeft (Fin x) = nat \<lceil>100 * x\<rceil>"
| "stepsLeft PInf = 0"
| "stepsLeft MInf = 0"
| "stepsLeft NaN = 0"

section \<open>Configurations for the examples\<close>

text \<open>A loss process with a constant rate, a \<^verbatim>\<open>dotGamma\<close> that is 1, and a charge
  accessor that gives every particle the same charge.\<close>

definition constantLoss :: "real \<Rightarrow> PID \<Rightarrow> double \<Rightarrow> double \<Rightarrow> double" where
  "constantLoss c pid Gamma z = Fin c"

definition unitDotGamma :: "double \<Rightarrow> double" where
  "unitDotGamma Gamma = Fin 1"

definition constantCharge :: "int \<Rightarrow> PID \<Rightarrow> int" where
  "constantCharge Z pid = Z"

text \<open>The particle of \<^verbatim>\<open>main\<close>, at redshift 1 with Lorentz factor \<open>10\<^sup>1\<^sup>2\<close>, alone on
  the stack.\<close>

definition exampleProton :: Particle where
  "exampleProton = \<lparr>getPid = 1, getRedshift = Fin 1, getGamma = Fin (10 ^ 12)\<rparr>"

definition exampleState :: "unit RunState" where
  "exampleState = \<lparr>m_stack = [exampleProton], m_rng = (), out = []\<rparr>"

text \<open>An engine with the given loss processes, a constant interaction rate and a generator
  that always draws the same number; \<open>dt/dz\<close> is 1, the final state of an interaction is
  the particle at its new redshift, and every particle is a nucleus.\<close>

definition exampleEvolutor ::
  "(PID \<Rightarrow> double \<Rightarrow> double \<Rightarrow> double) list \<Rightarrow> double \<Rightarrow> double \<Rightarrow> unit Evolutor" where
  "exampleEvolutor processes rateValue draw =
     \<lparr>m_cosmology_dtdz = (\<lambda>z. Fin 1),
      m_pppcmb_rate = (\<lambda>pid Gamma z. rateValue),
      m_pppcmb_finalState = (\<lambda>particle z rng. ([particle\<lparr>getRedshift := z\<rparr>], rng)),
      m_continuousLosses = processes,
      m_rng_call = (\<lambda>rng. (draw, rng)),
      IsNucleus = (\<lambda>pid. True)\<rparr>"

text \<open>A stack of three particles: one below the Lorentz factor of propagation, the
  particle of \<^verbatim>\<open>main\<close>, and a third one that is active as well.\<close>

definition threeParticleState :: "unit RunState" where
  "threeParticleState =
     \<lparr>m_stack = [exampleProton\<lparr>getGamma := Fin 1\<rparr>, exampleProton,
                 exampleProton\<lparr>getPid := 2\<rparr>],
      m_rng = (), out = []\<rparr>"

text \<open>A particle of simprop.cpp at redshift 0.015, and an adiabatic loss factor that is 1.\<close>

definition exampleSimParticle :: SimParticle where
  "exampleSimParticle = \<lparr>sp_pid = 1, now_z = Fin 0.015, now_E = Fin 2\<rparr>"

definition noAdiabaticLoss :: "double \<Rightarrow> double \<Rightarrow> double" where
  "noAdiabaticLoss z1 z2 = Fin 1"

section \<open>Arithmetic of double\<close>

lemma half_times: "Fin (1 / 2) * dz = dz / Fin 2"
  by (cases dz) simp_all

lemma fin_minus: "Fin a - Fin b = Fin (a - b)"
  by (simp add: minus_double_def)

text \<open>The definitions a concrete run unfolds.\<close>

lemmas example_defs = iteration_def deref_def IsActive_def computeStochasticRedshiftInterval_def
  computeLossesRedshiftInterval_def computeDeltaGamma_def exampleEvolutor_def exampleProton_def
  exampleState_def constantLoss_def deltaGammaCritical_def minus_double_def Let_def erase_def
  insert_begin_def

section \<open>The continuous loss integrator\<close>

lemma lossesLoop_foldl:
  "lossesLoop ls pid Gamma zNow dz (a, b, c) =
     (foldl (\<lambda>total losses. total + losses pid Gamma zNow) a ls,
      foldl (\<lambda>total losses. total + losses pid Gamma (zNow - dz / Fin 2)) b ls,
      foldl (\<lambda>total losses. total + losses pid Gamma (zNow - dz)) c ls)"
  by (induction ls arbitrary: a b c) (simp_all add: half_times)

text \<open>Claim C2. For every particle, with redshift \<open>z\<close>, and every step \<open>dz\<close>,
  \<^verbatim>\<open>computeDeltaGamma\<close> returns \<open>dz/6 * dtdz(z) * (R(z) + 4 * R(z - dz/2) + R(z - dz))\<close>,
  where \<open>R\<close> is the loss rate summed over the configured processes: the three
  accumulators of the loop are the three sums, and the half step \<open>0.5 * dz\<close> is
  \<open>dz/2\<close>.\<close>

theorem computeDeltaGamma_simpson:
  "computeDeltaGamma ev particle dz =
     dz / Fin 6 * m_cosmology_dtdz ev (getRedshift particle) *
       (summedLossRate (m_continuousLosses ev) (getPid particle) (getGamma particle)
          (getRedshift particle)
        + Fin 4 * summedLossRate (m_continuousLosses ev) (getPid particle) (getGamma particle)
                    (getRedshift particle - dz / Fin 2)
        + summedLossRate (m_continuousLosses ev) (getPid particle) (getGamma particle)
            (getRedshift particle - dz))"
  by (simp add: computeDeltaGamma_def lossesLoop_foldl summedLossRate_def Let_def)

section \<open>The adaptive step-size solver\<close>

text \<open>The estimate of the root finder lies strictly inside a bracket of finite numbers.\<close>

lemma rootFinder_bracket:
  "a < b \<Longrightarrow> \<exists>c. rootFinder f (Fin a) (Fin b) n tol = Fin c \<and> a < c \<and> c < b"
proof (induction n arbitrary: a b)
  case 0
  then show ?case by (intro exI[of _ "(a + b) / 2"]) simp
next
  case (Suc n)
  let ?m = "(a + b) / 2"
  have m: "a < ?m" "?m < b" using Suc.prems by simp_all
  from Suc.IH[OF m(1)] obtain c1
    where c1: "rootFinder f (Fin a) (Fin ?m) n tol = Fin c1" "a < c1" "c1 < ?m"
    by blast
  from Suc.IH[OF m(2)] obtain c2
    where c2: "rootFinder f (Fin ?m) (Fin b) n tol = Fin c2" "?m < c2" "c2 < b"
    by blast
  have "rootFinder f (Fin a) (Fin b) (Suc n) tol = Fin ?m
        \<or> rootFinder f (Fin a) (Fin b) (Suc n) tol = Fin c1
        \<or> rootFinder f (Fin a) (Fin b) (Suc n) tol = Fin c2"
    using c1(1) c2(1) by (simp add: Let_def)
  then show ?case
    using m c1(2,3) c2(2,3) by auto
qed

text \<open>Claim C3. For a particle at a redshift \<open>z_now > 0\<close>,
  \<^verbatim>\<open>computeLossesRedshiftInterval\<close> evaluates \<^verbatim>\<open>computeDeltaGamma\<close> at \<open>z_now\<close>; if
  the value does not exceed the critical threshold 0.1 it returns \<open>z_now\<close>, otherwise it
  returns what root finding of \<open>computeDeltaGamma(particle, x) - 0.1\<close> over \<open>[0, z_now]\<close>
  with 100 iterations and tolerance \<open>10\<^sup>-\<^sup>5\<close> returns; either way the result \<open>dz_c\<close>
  satisfies \<open>0 < dz_c \<le> z_now\<close>.\<close>

theorem lossesInterval_bounds:
  assumes "getRedshift particle = Fin z" and "0 < z"
  shows "computeLossesRedshiftInterval ev particle =
           (if computeDeltaGamma ev particle (Fin z) > deltaGammaCritical
            then rootFinder (\<lambda>x. computeDeltaGamma ev particle x - deltaGammaCritical)
                   (Fin 0) (Fin z) 100 (Fin (1 / 10 ^ 5))
            else Fin z)
         \<and> deltaGammaCritical = Fin 0.1
         \<and> Fin 0 < computeLossesRedshiftInterval ev particle
         \<and> computeLossesRedshiftInterval ev particle \<le> Fin z"
proof -
  obtain c where c: "rootFinder (\<lambda>x. computeDeltaGamma ev particle x - deltaGammaCritical)
                   (Fin 0) (Fin z) 100 (Fin (1 / 10 ^ 5)) = Fin c" "0 < c" "c < z"
    using rootFinder_bracket[OF assms(2)] by blast
  show ?thesis using assms c by (simp add: computeLossesRedshiftInterval_def Let_def deltaGammaCritical_def)
qed


text \<open>At redshift 1 with a loss rate of 1 the threshold is exceeded, and the root finder's
  estimate is within the bounds.\<close>

theorem lossesInterval_bounds_witness:
  "getRedshift exampleProton = Fin 1 \<and> (0::real) < 1
   \<and> computeDeltaGamma (exampleEvolutor [constantLoss 1] (Fin 2) (Fin 0)) exampleProton (Fin 1)
        > deltaGammaCritical
   \<and> Fin 0 < computeLossesRedshiftInterval (exampleEvolutor [constantLoss 1] (Fin 2) (Fin 0))
               exampleProton
   \<and> computeLossesRedshiftInterval (exampleEvolutor [constantLoss 1] (Fin 2) (Fin 0))
        exampleProton \<le> Fin 1"
proof -
  have z: "getRedshift exampleProton = Fin 1" by (simp add: exampleProton_def)
  have d: "computeDeltaGamma (exampleEvolutor [constantLoss 1] (Fin 2) (Fin 0)) exampleProton (Fin 1)
        > deltaGammaCritical"
    by (simp add: example_defs)
  have pos: "(0::real) < 1" by simp
  show ?thesis
    using lossesInterval_bounds[OF z pos, of "exampleEvolutor [constantLoss 1] (Fin 2) (Fin 0)"] z d pos
    by blast
qed

section \<open>The stochastic interaction sampler\<close>

lemma mean_free_path_cases:
  "fabs (Fin 1 / Fin \<rho> / Fin t) = PInf \<or> (\<exists>l. 0 < l \<and> fabs (Fin 1 / Fin \<rho> / Fin t) = Fin l)"
  by (cases "\<rho> = 0"; cases "t = 0") auto

lemma sample_above:
  assumes "lambda_s = PInf \<or> (\<exists>l. 0 < l \<and> lambda_s = Fin l)"
  shows "\<exists>r. 0 \<le> r \<and> r < 1 \<and> Fin z < - lambda_s * std_log (Fin 1 - Fin r)"
  using assms
proof
  assume "lambda_s = PInf"
  then have "Fin z < - lambda_s * std_log (Fin 1 - Fin (1 / 2))"
    by (simp add: fin_minus)
  then show ?thesis by (intro exI[of _ "1 / 2"]) simp
next
  assume "\<exists>l. 0 < l \<and> lambda_s = Fin l"
  then obtain l where l: "0 < l" "lambda_s = Fin l" by blast
  let ?r = "1 - exp (- ((\<bar>z\<bar> + 1) / l))"
  have "Fin z < - lambda_s * std_log (Fin 1 - Fin ?r)"
    using l by (simp add: fin_minus)
  moreover have "0 \<le> ?r" "?r < 1" using l by simp_all
  ultimately show ?thesis by blast
qed

text \<open>Claim C4. For every particle and every draw \<open>r\<close>,
  \<^verbatim>\<open>computeStochasticRedshiftInterval\<close> returns \<open>- \<lambda> * ln (1 - r)\<close> with
  \<open>\<lambda> = |1 / rate(pid, Gamma, z_now) / dtdz(z_now)|\<close>, and the value is not capped to
  \<open>z_now\<close>: whenever the rate, \<open>dt/dz\<close> and \<open>z_now\<close> are finite, some draw in \<open>[0,1)\<close>
  gives a step beyond \<open>z_now\<close>.\<close>

theorem stochastic_interval_formula:
  "(\<forall>r. computeStochasticRedshiftInterval ev particle r =
          - fabs (Fin 1 / m_pppcmb_rate ev (getPid particle) (getGamma particle) (getRedshift particle)
                   / m_cosmology_dtdz ev (getRedshift particle))
            * std_log (Fin 1 - r))
   \<and> (\<forall>\<rho> t z.
         m_pppcmb_rate ev (getPid particle) (getGamma particle) (getRedshift particle) = Fin \<rho>
         \<and> m_cosmology_dtdz ev (getRedshift particle) = Fin t
         \<and> getRedshift particle = Fin z \<longrightarrow>
         (\<exists>r. 0 \<le> r \<and> r < 1
              \<and> computeStochasticRedshiftInterval ev particle (Fin r) > getRedshift particle))"
proof (intro conjI allI impI)
  fix r
  show "computeStochasticRedshiftInterval ev particle r =
          - fabs (Fin 1 / m_pppcmb_rate ev (getPid particle) (getGamma particle) (getRedshift particle)
                   / m_cosmology_dtdz ev (getRedshift particle))
            * std_log (Fin 1 - r)"
    by (simp add: computeStochasticRedshiftInterval_def Let_def)
next
  fix \<rho> t z
  assume a: "m_pppcmb_rate ev (getPid particle) (getGamma particle) (getRedshift particle) = Fin \<rho>
         \<and> m_cosmology_dtdz ev (getRedshift particle) = Fin t
         \<and> getRedshift particle = Fin z"
  have "computeStochasticRedshiftInterval ev particle (Fin r) =
          - fabs (Fin 1 / Fin \<rho> / Fin t) * std_log (Fin 1 - Fin r)" for r
    by (simp only: computeStochasticRedshiftInterval_def Let_def a[THEN conjunct1]
          a[THEN conjunct2, THEN conjunct1])
  then show "\<exists>r. 0 \<le> r \<and> r < 1
              \<and> computeStochasticRedshiftInterval ev particle (Fin r) > getRedshift particle"
    using sample_above[OF mean_free_path_cases, of z \<rho> t] a by simp
qed


text \<open>With rate \<open>1/2\<close> and \<open>dt/dz = 1\<close> the mean free path is 2, and the draw
  \<open>1 - 1/e\<close> gives the step 2, beyond the redshift 1 of the particle.\<close>

theorem stochastic_interval_formula_witness:
  "m_pppcmb_rate (exampleEvolutor [] (Fin (1 / 2)) (Fin 0))
      (getPid exampleProton) (getGamma exampleProton) (getRedshift exampleProton) = Fin (1 / 2)
   \<and> m_cosmology_dtdz (exampleEvolutor [] (Fin (1 / 2)) (Fin 0)) (getRedshift exampleProton) = Fin 1
   \<and> getRedshift exampleProton = Fin 1
   \<and> computeStochasticRedshiftInterval (exampleEvolutor [] (Fin (1 / 2)) (Fin 0)) exampleProton
        (Fin (1 - exp (- 1))) = Fin 2
   \<and> (\<exists>r. 0 \<le> r \<and> r < 1
          \<and> computeStochasticRedshiftInterval (exampleEvolutor [] (Fin (1 / 2)) (Fin 0))
               exampleProton (Fin r) > getRedshift exampleProton)"
proof -
  have h: "m_pppcmb_rate (exampleEvolutor [] (Fin (1 / 2)) (Fin 0))
      (getPid exampleProton) (getGamma exampleProton) (getRedshift exampleProton) = Fin (1 / 2)
   \<and> m_cosmology_dtdz (exampleEvolutor [] (Fin (1 / 2)) (Fin 0)) (getRedshift exampleProton) = Fin 1
   \<and> getRedshift exampleProton = Fin 1"
    by (simp add: exampleEvolutor_def exampleProton_def)
  have "computeStochasticRedshiftInterval (exampleEvolutor [] (Fin (1 / 2)) (Fin 0)) exampleProton
        (Fin (1 - exp (- 1))) = Fin 2"
    using stochastic_interval_formula[of "exampleEvolutor [] (Fin (1 / 2)) (Fin 0)" exampleProton]
    by (simp add: exampleEvolutor_def exampleProton_def fin_minus)
  moreover have "\<exists>r. 0 \<le> r \<and> r < 1
          \<and> computeStochasticRedshiftInterval (exampleEvolutor [] (Fin (1 / 2)) (Fin 0))
               exampleProton (Fin r) > getRedshift exampleProton"
    using stochastic_interval_formula[of "exampleEvolutor [] (Fin (1 / 2)) (Fin 0)" exampleProton] h
    by blast
  ultimately show ?thesis using h by blast
qed

section \<open>The propagation engine\<close>

text \<open>While a particle is active, \<^verbatim>\<open>find_if\<close> finds one, and the iteration is decided by
  the two assertions and the comparison of the two steps.\<close>

lemma find_if_active:
  "0 < count_if P xs \<Longrightarrow> find_if P xs < length xs \<and> P (xs ! find_if P xs)"
  by (induction xs) (auto split: if_splits)

lemma iteration_active:
  assumes "0 < count_if (IsActive ev) (m_stack s)"
    and "it = find_if (IsActive ev) (m_stack s)"
    and "particle = m_stack s ! it"
    and "m_rng_call ev (m_rng s) = (r, rng1)"
  shows "iteration ev s =
     (if computeStochasticRedshiftInterval ev particle r > Fin 0 then
        if computeLossesRedshiftInterval ev particle > Fin 0
           \<and> computeLossesRedshiftInterval ev particle \<le> getRedshift particle then
          if computeStochasticRedshiftInterval ev particle r > computeLossesRedshiftInterval ev particle
             \<or> computeStochasticRedshiftInterval ev particle r > getRedshift particle
          then Inr (s\<lparr>m_stack := (m_stack s)
                     [it := particle\<lparr>getRedshift := getRedshift particle
                                           - computeLossesRedshiftInterval ev particle,
                                      getGamma := getGamma particle
                                           * (Fin 1 - computeDeltaGamma ev particle
                                                (computeLossesRedshiftInterval ev particle))\<rparr>],
                   m_rng := rng1, out := out s @ [particle]\<rparr>)
          else Inr (s\<lparr>m_stack := insert_begin (erase (m_stack s) it)
                       (fst (m_pppcmb_finalState ev particle
                          (getRedshift particle - computeStochasticRedshiftInterval ev particle r) rng1)),
                   m_rng := snd (m_pppcmb_finalState ev particle
                          (getRedshift particle - computeStochasticRedshiftInterval ev particle r) rng1),
                   out := out s @ [particle]\<rparr>)
        else Inl AssertionFailure
      else Inl AssertionFailure)"
  using find_if_active[OF assms(1)] assms(2-4)
  by (simp add: iteration_def deref_def Let_def split: prod.splits)

text \<open>Claim C1, amended. In an iteration of \<^verbatim>\<open>Evolutor::run\<close> in which both
  assertions hold (\<open>dz_s > 0\<close>, \<open>dz_c > 0\<close> and \<open>dz_c \<le> z_now\<close>), for the selected active
  particle at redshift \<open>z_now\<close>: if \<open>dz_s > dz_c\<close> or \<open>dz_s > z_now\<close> the particle's
  state becomes \<open>(z_now - dz_c, Gamma * (1 - computeDeltaGamma(particle, dz_c)))\<close> and it
  stays on the stack where it was, every other particle as it was; otherwise the
  final-state generator is called with the redshift \<open>z_now - dz_s\<close>, and the new stack is
  the products followed by the particles before and the particles after the selected one,
  which is removed.\<close>

theorem run_decision_rule:
  assumes "0 < count_if (IsActive ev) (m_stack s)"
    and "it = find_if (IsActive ev) (m_stack s)"
    and "particle = m_stack s ! it"
    and "z_now = getRedshift particle"
    and "m_rng_call ev (m_rng s) = (r, rng1)"
    and "dz_s = computeStochasticRedshiftInterval ev particle r"
    and "dz_c = computeLossesRedshiftInterval ev particle"
    and "dz_s > Fin 0" and "dz_c > Fin 0" and "dz_c \<le> z_now"
  shows "(dz_s > dz_c \<or> dz_s > z_now \<longrightarrow>
            iteration ev s =
              Inr (s\<lparr>m_stack := (m_stack s)
                       [it := particle\<lparr>getRedshift := z_now - dz_c,
                                        getGamma := getGamma particle
                                           * (Fin 1 - computeDeltaGamma ev particle dz_c)\<rparr>],
                     m_rng := rng1, out := out s @ [particle]\<rparr>))
       \<and> (\<not> (dz_s > dz_c \<or> dz_s > z_now) \<longrightarrow>
            (\<exists>finalState rng2.
               m_pppcmb_finalState ev particle (z_now - dz_s) rng1 = (finalState, rng2)
               \<and> iteration ev s =
                   Inr (s\<lparr>m_stack := finalState @ take it (m_stack s) @ drop (Suc it) (m_stack s),
                          m_rng := rng2, out := out s @ [particle]\<rparr>)))"
  using assms(4,6-10) iteration_active[OF assms(1,2,3,5)]
  by (cases "m_pppcmb_finalState ev particle (z_now - dz_s) rng1")
     (simp add: insert_begin_def erase_def)

text \<open>A stack of three particles, the second of which is selected. With mean free path 2
  it takes the continuous step to redshift 0 and loses a hundredth of its Lorentz factor,
  in place; with mean free path \<open>1/2\<close> it interacts at redshift \<open>1/2\<close>, the product comes
  first and the two other particles follow.\<close>

theorem run_decision_rule_witness:
  "find_if (IsActive (exampleEvolutor [constantLoss (1 / 100)] (Fin (1 / 2)) (Fin (1 - exp (- 1)))))
      (m_stack threeParticleState) = 1
   \<and> computeStochasticRedshiftInterval
      (exampleEvolutor [constantLoss (1 / 100)] (Fin (1 / 2)) (Fin (1 - exp (- 1))))
      exampleProton (Fin (1 - exp (- 1))) = Fin 2
   \<and> computeLossesRedshiftInterval
      (exampleEvolutor [constantLoss (1 / 100)] (Fin (1 / 2)) (Fin (1 - exp (- 1))))
      exampleProton = Fin 1
   \<and> iteration (exampleEvolutor [constantLoss (1 / 100)] (Fin (1 / 2)) (Fin (1 - exp (- 1))))
        threeParticleState =
      Inr \<lparr>m_stack = [exampleProton\<lparr>getGamma := Fin 1\<rparr>,
                       \<lparr>getPid = 1, getRedshift = Fin 0, getGamma = Fin (99 * 10 ^ 10)\<rparr>,
                       exampleProton\<lparr>getPid := 2\<rparr>],
           m_rng = (), out = [exampleProton]\<rparr>
   \<and> computeStochasticRedshiftInterval
      (exampleEvolutor [constantLoss (1 / 100)] (Fin 2) (Fin (1 - exp (- 1))))
      exampleProton (Fin (1 - exp (- 1))) = Fin (1 / 2)
   \<and> computeLossesRedshiftInterval
      (exampleEvolutor [constantLoss (1 / 100)] (Fin 2) (Fin (1 - exp (- 1))))
      exampleProton = Fin 1
   \<and> iteration (exampleEvolutor [constantLoss (1 / 100)] (Fin 2) (Fin (1 - exp (- 1))))
        threeParticleState =
      Inr \<lparr>m_stack = [\<lparr>getPid = 1, getRedshift = Fin (1 / 2), getGamma = Fin (10 ^ 12)\<rparr>,
                       exampleProton\<lparr>getGamma := Fin 1\<rparr>,
                       exampleProton\<lparr>getPid := 2\<rparr>],
           m_rng = (), out = [exampleProton]\<rparr>"
proof -
  let ?slow = "exampleEvolutor [constantLoss (1 / 100)] (Fin (1 / 2)) (Fin (1 - exp (- 1)))"
  let ?fast = "exampleEvolutor [constantLoss (1 / 100)] (Fin 2) (Fin (1 - exp (- 1)))"
  have s1: "computeStochasticRedshiftInterval ?slow exampleProton (Fin (1 - exp (- 1))) = Fin 2"
    and s2: "computeStochasticRedshiftInterval ?fast exampleProton (Fin (1 - exp (- 1))) = Fin (1 / 2)"
    by (simp_all add: example_defs)
  have c1: "computeLossesRedshiftInterval ?slow exampleProton = Fin 1"
    and c2: "computeLossesRedshiftInterval ?fast exampleProton = Fin 1"
    by (simp_all add: example_defs)
  have d1: "computeDeltaGamma ?slow exampleProton (Fin 1) = Fin (1 / 100)"
    by (simp add: example_defs)
  have a1: "0 < count_if (IsActive ?slow) (m_stack threeParticleState)"
    and a2: "0 < count_if (IsActive ?fast) (m_stack threeParticleState)"
    by (simp_all add: example_defs threeParticleState_def)
  have i1: "1 = find_if (IsActive ?slow) (m_stack threeParticleState)"
    and i2: "1 = find_if (IsActive ?fast) (m_stack threeParticleState)"
    by (simp_all add: example_defs threeParticleState_def)
  have p: "exampleProton = m_stack threeParticleState ! 1"
    and z: "Fin 1 = getRedshift exampleProton"
    by (simp_all add: threeParticleState_def exampleProton_def)
  have r1: "m_rng_call ?slow (m_rng threeParticleState) = (Fin (1 - exp (- 1)), ())"
    and r2: "m_rng_call ?fast (m_rng threeParticleState) = (Fin (1 - exp (- 1)), ())"
    by (simp_all add: exampleEvolutor_def)
  have "iteration ?slow threeParticleState =
      Inr \<lparr>m_stack = [exampleProton\<lparr>getGamma := Fin 1\<rparr>,
                       \<lparr>getPid = 1, getRedshift = Fin 0, getGamma = Fin (99 * 10 ^ 10)\<rparr>,
                       exampleProton\<lparr>getPid := 2\<rparr>],
           m_rng = (), out = [exampleProton]\<rparr>"
    using run_decision_rule[OF a1 i1 p z r1 s1[symmetric] c1[symmetric]] d1
    by (simp add: threeParticleState_def exampleProton_def fin_minus)
  moreover have "iteration ?fast threeParticleState =
      Inr \<lparr>m_stack = [\<lparr>getPid = 1, getRedshift = Fin (1 / 2), getGamma = Fin (10 ^ 12)\<rparr>,
                       exampleProton\<lparr>getGamma := Fin 1\<rparr>,
                       exampleProton\<lparr>getPid := 2\<rparr>],
           m_rng = (), out = [exampleProton]\<rparr>"
    using run_decision_rule[OF a2 i2 p z r2 s2[symmetric] c2[symmetric]]
    by (simp add: threeParticleState_def exampleProton_def exampleEvolutor_def fin_minus)
  ultimately show ?thesis using s1 s2 c1 c2 i1[symmetric] by simp
qed

text \<open>Claim C1 as stated, for each iteration, fails at the draw 0. Then \<open>dz_s = 0\<close>, which
  is greater neither than \<open>dz_c = 1\<close> nor than \<open>z_now = 1\<close>, so the claim's second case
  applies; but the first assertion stops the iteration before either branch, and no
  particle is removed or inserted.\<close>

theorem run_decision_rule_counterexample:
  "find_if (IsActive (exampleEvolutor [constantLoss (1 / 100)] (Fin 2) (Fin 0)))
      (m_stack threeParticleState) = 1
   \<and> m_stack threeParticleState ! 1 = exampleProton
   \<and> m_rng_call (exampleEvolutor [constantLoss (1 / 100)] (Fin 2) (Fin 0)) (m_rng threeParticleState)
        = (Fin 0, ())
   \<and> computeStochasticRedshiftInterval (exampleEvolutor [constantLoss (1 / 100)] (Fin 2) (Fin 0))
        exampleProton (Fin 0) = Fin 0
   \<and> computeLossesRedshiftInterval (exampleEvolutor [constantLoss (1 / 100)] (Fin 2) (Fin 0))
        exampleProton = Fin 1
   \<and> \<not> (Fin 0 > Fin 1 \<or> Fin 0 > getRedshift exampleProton)
   \<and> iteration (exampleEvolutor [constantLoss (1 / 100)] (Fin 2) (Fin 0)) threeParticleState
        = Inl AssertionFailure"
  by (simp add: example_defs threeParticleState_def)

lemma mset_erase:
  assumes "it < length xs"
  shows "mset xs = add_mset (xs ! it) (mset (erase xs it))"
proof -
  have "mset xs = mset (take it xs @ xs ! it # drop (Suc it) xs)"
    using id_take_nth_drop[OF assms] by simp
  also have "\<dots> = add_mset (xs ! it) (mset (erase xs it))"
    by (simp add: erase_def)
  finally show ?thesis .
qed

text \<open>Claim C9. After a stochastic-branch step the stack is the collection returned by
  \<^verbatim>\<open>finalState\<close> followed by the previous stack without the interacting particle, in
  its order; as multisets, the new population is the old one with that particle taken out
  once and the products added, so no other particle is changed, dropped or duplicated.\<close>

theorem interaction_step_population:
  assumes "0 < count_if (IsActive ev) (m_stack s)"
    and "it = find_if (IsActive ev) (m_stack s)"
    and "particle = m_stack s ! it"
    and "z_now = getRedshift particle"
    and "m_rng_call ev (m_rng s) = (r, rng1)"
    and "dz_s = computeStochasticRedshiftInterval ev particle r"
    and "dz_c = computeLossesRedshiftInterval ev particle"
    and "dz_s > Fin 0" and "dz_c > Fin 0" and "dz_c \<le> z_now"
    and "\<not> (dz_s > dz_c \<or> dz_s > z_now)"
    and "m_pppcmb_finalState ev particle (z_now - dz_s) rng1 = (finalState, rng2)"
  shows "\<exists>s'. iteration ev s = Inr s'
           \<and> m_stack s' = finalState @ take it (m_stack s) @ drop (Suc it) (m_stack s)
           \<and> mset (m_stack s') = mset finalState + (mset (m_stack s) - {#particle#})"
proof -
  have lt: "it < length (m_stack s)"
    using find_if_active[OF assms(1)] assms(2) by simp
  have "iteration ev s =
          Inr (s\<lparr>m_stack := finalState @ erase (m_stack s) it,
                 m_rng := rng2, out := out s @ [particle]\<rparr>)"
    using assms(4,6-12) iteration_active[OF assms(1,2,3,5)]
    by (simp add: insert_begin_def)
  moreover have "mset (finalState @ erase (m_stack s) it)
                   = mset finalState + (mset (m_stack s) - {#particle#})"
    using mset_erase[OF lt] assms(3) by simp
  ultimately show ?thesis
    by (simp add: erase_def)
qed

text \<open>With three particles on the stack, of which the second is the first active one, the
  interaction puts the product in front and leaves the two others as they were.\<close>

theorem interaction_step_population_witness:
  "\<exists>s'. iteration (exampleEvolutor [constantLoss (1 / 100)] (Fin 2) (Fin (1 - exp (- 1))))
           (exampleState\<lparr>m_stack := [exampleProton\<lparr>getGamma := Fin 1\<rparr>, exampleProton,
                                        exampleProton\<lparr>getPid := 2\<rparr>]\<rparr>) = Inr s'
      \<and> m_stack s' = [exampleProton\<lparr>getRedshift := Fin (1 / 2)\<rparr>,
                        exampleProton\<lparr>getGamma := Fin 1\<rparr>, exampleProton\<lparr>getPid := 2\<rparr>]"
proof -
  let ?ev = "exampleEvolutor [constantLoss (1 / 100)] (Fin 2) (Fin (1 - exp (- 1)))"
  let ?s = "exampleState\<lparr>m_stack := [exampleProton\<lparr>getGamma := Fin 1\<rparr>, exampleProton,
                                        exampleProton\<lparr>getPid := 2\<rparr>]\<rparr>"
  have s: "computeStochasticRedshiftInterval ?ev exampleProton (Fin (1 - exp (- 1))) = Fin (1 / 2)"
    by (simp add: example_defs)
  have c: "computeLossesRedshiftInterval ?ev exampleProton = Fin 1"
    by (simp add: example_defs)
  have a: "0 < count_if (IsActive ?ev) (m_stack ?s)"
    by (simp add: example_defs)
  have i: "1 = find_if (IsActive ?ev) (m_stack ?s)"
    by (simp add: example_defs)
  have p: "exampleProton = m_stack ?s ! 1"
    and z: "Fin 1 = getRedshift exampleProton"
    by (simp_all add: exampleState_def exampleProton_def)
  have r: "m_rng_call ?ev (m_rng ?s) = (Fin (1 - exp (- 1)), ())"
    by (simp add: exampleEvolutor_def)
  have f: "m_pppcmb_finalState ?ev exampleProton (Fin 1 - Fin (1 / 2)) ()
             = ([exampleProton\<lparr>getRedshift := Fin (1 / 2)\<rparr>], ())"
    by (simp add: exampleEvolutor_def fin_minus)
  show ?thesis
    using interaction_step_population[OF a i p z r s[symmetric] c[symmetric] _ _ _ _ f]
    by simp blast
qed

section \<open>The loop of SimProp::run\<close>

lemma find_if_holds: "find_if P xs < length xs \<Longrightarrow> P (xs ! find_if P xs)"
  by (induction xs) (auto split: if_splits)

lemma sum_list_update_less:
  fixes f :: "'a \<Rightarrow> nat"
  assumes "i < length xs" and "f x < f (xs ! i)"
  shows "sum_list (map f (xs[i := x])) < sum_list (map f xs)"
  using assms
proof (induction xs arbitrary: i)
  case Nil
  then show ?case by simp
next
  case (Cons y ys)
  then show ?case by (cases i) auto
qed

lemma evolved_redshift:
  assumes "Fin (1 / 10 ^ 20) < z" and "z \<noteq> PInf"
  shows "\<exists>x. z = Fin x \<and> 0 < x
            \<and> std_max (z - Fin 0.01) (Fin 0) = Fin (max (x - 0.01) 0)"
  using assms by (cases z) (auto simp: std_max_def minus_double_def max_def)

lemma stepsLeft_decreases:
  assumes "0 < x"
  shows "stepsLeft (Fin (max (x - 0.01) 0)) < stepsLeft (Fin x)"
proof -
  have "\<lceil>100 * max (x - 0.01) 0\<rceil> = max (\<lceil>100 * x\<rceil> - 1) 0"
    by (simp add: max_def algebra_simps)
  moreover have "0 < \<lceil>100 * x\<rceil>" using assms by simp
  ultimately show ?thesis by simp
qed

lemma simpropLoop_reaches_end:
  assumes "it \<noteq> length ps" and "\<forall>p \<in> set ps. now_z p \<noteq> PInf"
  shows "simpropLoop eV arl ps it = Some (Inl PastTheEnd)"
  using assms
proof (induction "sum_list (map (\<lambda>p. stepsLeft (now_z p)) ps)" arbitrary: ps it rule: less_induct)
  case less
  let ?it = "find_if (DoPropagate eV) ps"
  show ?case
  proof (cases "?it < length ps")
    case False
    then show ?thesis
      using less.prems(1) by (subst simpropLoop.simps) (simp add: Evolve_def deref_def)
  next
    case True
    let ?p = "ps ! ?it"
    have propagates: "DoPropagate eV ?p" using find_if_holds[OF True] .
    have "?p \<in> set ps" using True by simp
    then have "now_z ?p \<noteq> PInf" using less.prems(2) by blast
    with propagates obtain x where x: "now_z ?p = Fin x" "0 < x"
        "std_max (now_z ?p - Fin 0.01) (Fin 0) = Fin (max (x - 0.01) 0)"
      using evolved_redshift[of "now_z ?p"] by (auto simp: DoPropagate_def)
    define p' where "p' = ?p\<lparr>now_z := Fin (max (x - 0.01) 0),
        now_E := now_E ?p * arl (now_z ?p) (Fin (max (x - 0.01) 0))\<rparr>"
    have ev: "Evolve arl ps ?it = Inr (ps[?it := p'])"
      using True x(3) by (simp add: Evolve_def deref_def p'_def Let_def)
    have dec: "sum_list (map (\<lambda>p. stepsLeft (now_z p)) (ps[?it := p']))
                 < sum_list (map (\<lambda>p. stepsLeft (now_z p)) ps)"
      using True stepsLeft_decreases[OF x(2)] x(1)
      by (intro sum_list_update_less) (simp_all add: p'_def)
    have fin: "\<forall>p \<in> set (ps[?it := p']). now_z p \<noteq> PInf"
      using less.prems(2) by (auto simp: p'_def dest!: set_update_subset_insert[THEN subsetD])
    have "simpropLoop eV arl (ps[?it := p']) ?it = Some (Inl PastTheEnd)"
      using less.hyps[OF dec _ fin] True by simp
    then show ?thesis
      using less.prems(1) ev by (subst simpropLoop.simps) simp
  qed
qed

text \<open>Claim C10. For every non-empty initial population (of particles whose redshift is
  not infinite), the loop of \<^verbatim>\<open>SimProp::run\<close> ends by calling \<^verbatim>\<open>Evolve\<close> on the
  past-the-end iterator: every call of \<^verbatim>\<open>Evolve\<close> on a particle brings its redshift
  one step closer to 0, so an iteration comes in which \<^verbatim>\<open>find_if\<close> finds no particle
  to propagate, and \<^verbatim>\<open>Evolve\<close> is applied to its result before the loop condition is
  tested again.\<close>

theorem simprop_run_past_the_end:
  assumes "m_particles \<noteq> []" and "\<forall>p \<in> set m_particles. now_z p \<noteq> PInf"
  shows "simprop_run eV adiabaticRelativeLoss m_particles = Some (Inl PastTheEnd)"
  using assms by (simp add: simprop_run_def simpropLoop_reaches_end)

lemma evolve_example:
  "Evolve noAdiabaticLoss [exampleSimParticle] 0 = Inr [exampleSimParticle\<lparr>now_z := Fin 0.005\<rparr>]"
  "Evolve noAdiabaticLoss [exampleSimParticle\<lparr>now_z := Fin 0.005\<rparr>] 0
     = Inr [exampleSimParticle\<lparr>now_z := Fin 0\<rparr>]"
  "Evolve noAdiabaticLoss [exampleSimParticle\<lparr>now_z := Fin 0\<rparr>] 1 = Inl PastTheEnd"
  by (simp_all add: Evolve_def deref_def exampleSimParticle_def noAdiabaticLoss_def std_max_def fin_minus)

text \<open>A particle at redshift 0.015 is evolved twice, to 0.005 and to 0; the third call
  of \<^verbatim>\<open>Evolve\<close> is on the past-the-end iterator.\<close>

theorem simprop_run_past_the_end_witness:
  "[exampleSimParticle] \<noteq> []
   \<and> now_z exampleSimParticle \<noteq> PInf
   \<and> find_if (DoPropagate (Fin 1)) [exampleSimParticle] = 0
   \<and> Evolve noAdiabaticLoss [exampleSimParticle] 0
        = Inr [exampleSimParticle\<lparr>now_z := Fin 0.005\<rparr>]
   \<and> find_if (DoPropagate (Fin 1)) [exampleSimParticle\<lparr>now_z := Fin 0.005\<rparr>] = 0
   \<and> Evolve noAdiabaticLoss [exampleSimParticle\<lparr>now_z := Fin 0.005\<rparr>] 0
        = Inr [exampleSimParticle\<lparr>now_z := Fin 0\<rparr>]
   \<and> find_if (DoPropagate (Fin 1)) [exampleSimParticle\<lparr>now_z := Fin 0\<rparr>] = 1
   \<and> Evolve noAdiabaticLoss [exampleSimParticle\<lparr>now_z := Fin 0\<rparr>] 1 = Inl PastTheEnd
   \<and> simprop_run (Fin 1) noAdiabaticLoss [exampleSimParticle] = Some (Inl PastTheEnd)"
proof -
  have "simprop_run (Fin 1) noAdiabaticLoss [exampleSimParticle] = Some (Inl PastTheEnd)"
    using simprop_run_past_the_end[of "[exampleSimParticle]" "Fin 1" noAdiabaticLoss]
    by (simp add: exampleSimParticle_def)
  moreover have "find_if (DoPropagate (Fin 1)) [exampleSimParticle] = 0"
    "find_if (DoPropagate (Fin 1)) [exampleSimParticle\<lparr>now_z := Fin 0.005\<rparr>] = 0"
    "find_if (DoPropagate (Fin 1)) [exampleSimParticle\<lparr>now_z := Fin 0\<rparr>] = 1"
    by (simp_all add: DoPropagate_def exampleSimParticle_def)
  moreover have "now_z exampleSimParticle \<noteq> PInf" by (simp add: exampleSimParticle_def)
  ultimately show ?thesis using evolve_example by simp
qed

section \<open>Loss processes that return zero\<close>

lemma times_zero: "x * Fin 0 = Fin 0 \<or> x * Fin 0 = NaN"
  by (cases x) simp_all

lemma not_less_times_zero: "0 \<le> c \<Longrightarrow> \<not> Fin c < x * Fin 0"
  using times_zero[of x] by auto

lemma foldl_zero_losses:
  assumes "\<forall>losses \<in> set ls. \<forall>pid Gamma z. losses pid Gamma z = Fin 0"
  shows "foldl (\<lambda>total losses. total + losses pid Gamma z) (Fin 0) ls = Fin 0"
  using assms by (induction ls) simp_all

lemma zero_losses_deltaGamma:
  assumes "\<forall>losses \<in> set (m_continuousLosses ev). \<forall>pid Gamma z. losses pid Gamma z = Fin 0"
  shows "computeDeltaGamma ev particle dz = dz / Fin 6 * m_cosmology_dtdz ev (getRedshift particle) * Fin 0"
  by (simp add: computeDeltaGamma_def Let_def lossesLoop_foldl foldl_zero_losses[OF assms])

text \<open>Claim C7. If every configured continuous-loss process returns 0 for all inputs, then
  \<^verbatim>\<open>computeDeltaGamma\<close> is 0 for every particle and every step \<open>dz\<close> (a number, with
  \<open>dt/dz\<close> a number at the particle's redshift), and \<^verbatim>\<open>computeLossesRedshiftInterval\<close>
  returns \<open>z_now\<close>, the whole remaining range, every time.\<close>

theorem zero_losses_full_range:
  assumes "\<forall>losses \<in> set (m_continuousLosses ev). \<forall>pid Gamma z. losses pid Gamma z = Fin 0"
  shows "(\<forall>dz t. m_cosmology_dtdz ev (getRedshift particle) = Fin t \<longrightarrow>
            computeDeltaGamma ev particle (Fin dz) = Fin 0)
         \<and> computeLossesRedshiftInterval ev particle = getRedshift particle"
proof (intro conjI allI impI)
  fix dz t
  assume "m_cosmology_dtdz ev (getRedshift particle) = Fin t"
  then show "computeDeltaGamma ev particle (Fin dz) = Fin 0"
    by (simp add: zero_losses_deltaGamma[OF assms])
next
  have "\<not> deltaGammaCritical < computeDeltaGamma ev particle (getRedshift particle)"
    by (simp add: zero_losses_deltaGamma[OF assms] deltaGammaCritical_def not_less_times_zero)
  then show "computeLossesRedshiftInterval ev particle = getRedshift particle"
    by (simp add: computeLossesRedshiftInterval_def Let_def)
qed

text \<open>Two processes that return 0: the loss over a quarter of the range is 0 and the
  step is the whole range.\<close>

theorem zero_losses_full_range_witness:
  "m_continuousLosses (exampleEvolutor [constantLoss 0, constantLoss 0] (Fin 2) (Fin 0))
     = [constantLoss 0, constantLoss 0]
   \<and> m_cosmology_dtdz (exampleEvolutor [constantLoss 0, constantLoss 0] (Fin 2) (Fin 0))
        (getRedshift exampleProton) = Fin 1
   \<and> computeDeltaGamma (exampleEvolutor [constantLoss 0, constantLoss 0] (Fin 2) (Fin 0))
        exampleProton (Fin (1 / 4)) = Fin 0
   \<and> computeLossesRedshiftInterval (exampleEvolutor [constantLoss 0, constantLoss 0] (Fin 2) (Fin 0))
        exampleProton = Fin 1"
proof -
  let ?ev = "exampleEvolutor [constantLoss 0, constantLoss 0] (Fin 2) (Fin 0)"
  have h: "\<forall>losses \<in> set (m_continuousLosses ?ev). \<forall>pid Gamma z. losses pid Gamma z = Fin 0"
    by (simp add: exampleEvolutor_def constantLoss_def)
  have t: "m_cosmology_dtdz ?ev (getRedshift exampleProton) = Fin 1"
    by (simp add: exampleEvolutor_def)
  have z: "getRedshift exampleProton = Fin 1"
    by (simp add: exampleProton_def)
  have l: "m_continuousLosses ?ev = [constantLoss 0, constantLoss 0]"
    by (simp add: exampleEvolutor_def)
  show ?thesis
    using zero_losses_full_range[OF h, of exampleProton] l t z by metis
qed

section \<open>The assertions of the run\<close>

text \<open>At the draw 0 the logarithm is 0, so the sampled step is 0 (or NaN, when the mean
  free path is infinite): it is not positive.\<close>

lemma stochastic_interval_at_zero:
  "\<not> Fin 0 < computeStochasticRedshiftInterval ev particle (Fin 0)"
  by (simp add: computeStochasticRedshiftInterval_def Let_def fin_minus not_less_times_zero)

text \<open>Claim C5 says that in every iteration, for every draw \<open>r\<close> in \<open>[0,1)\<close>, the asserted
  \<open>dz_s > 0\<close>, \<open>dz_c > 0\<close> and \<open>dz_c \<le> z_now\<close> hold. At the draw \<open>r = 0\<close> they do not: for
  every engine and every stack with an active particle, \<open>dz_s\<close> is not positive, the first
  assertion fails in that iteration, and the run ends with it.\<close>

theorem zero_draw_fails_assertion:
  assumes "0 < count_if (IsActive ev) (m_stack s)"
    and "m_rng_call ev (m_rng s) = (Fin 0, rng1)"
  shows "\<not> computeStochasticRedshiftInterval ev
             (m_stack s ! find_if (IsActive ev) (m_stack s)) (Fin 0) > Fin 0
         \<and> iteration ev s = Inl AssertionFailure
         \<and> run ev s = Some (Inl AssertionFailure)"
proof -
  have i: "iteration ev s = Inl AssertionFailure"
    using iteration_active[OF assms(1) refl refl assms(2)]
    by (simp add: stochastic_interval_at_zero)
  have "run ev s = Some (Inl AssertionFailure)"
    using assms(1) i by (simp add: run_def runLoop.simps)
  with i show ?thesis by (simp add: stochastic_interval_at_zero)
qed

text \<open>The proton of \<^verbatim>\<open>main\<close> and a generator that draws 0: \<open>dz_s\<close> is 0.\<close>

theorem zero_draw_fails_assertion_witness:
  "0 < count_if (IsActive (exampleEvolutor [constantLoss (1 / 100)] (Fin 2) (Fin 0))) (m_stack exampleState)
   \<and> m_rng_call (exampleEvolutor [constantLoss (1 / 100)] (Fin 2) (Fin 0)) (m_rng exampleState)
        = (Fin 0, ())
   \<and> computeStochasticRedshiftInterval (exampleEvolutor [constantLoss (1 / 100)] (Fin 2) (Fin 0))
        exampleProton (Fin 0) = Fin 0
   \<and> iteration (exampleEvolutor [constantLoss (1 / 100)] (Fin 2) (Fin 0)) exampleState
        = Inl AssertionFailure
   \<and> run (exampleEvolutor [constantLoss (1 / 100)] (Fin 2) (Fin 0)) exampleState
        = Some (Inl AssertionFailure)"
proof -
  let ?ev = "exampleEvolutor [constantLoss (1 / 100)] (Fin 2) (Fin 0)"
  have a: "0 < count_if (IsActive ?ev) (m_stack exampleState)"
    by (simp add: example_defs)
  have r: "m_rng_call ?ev (m_rng exampleState) = (Fin 0, ())"
    by (simp add: exampleEvolutor_def)
  have s: "computeStochasticRedshiftInterval ?ev exampleProton (Fin 0) = Fin 0"
    by (simp add: example_defs)
  show ?thesis
    using zero_draw_fails_assertion[OF a r] a r s by blast
qed

section \<open>Arithmetic with NaN and infinities\<close>

lemma times_NaN: "x * NaN = NaN"
  by (cases x) simp_all

lemma plus_NaN: "x + NaN = NaN"
  by (cases x) simp_all

lemma less_trans_fin: "Fin c < a \<Longrightarrow> a < b \<Longrightarrow> Fin c < b"
  by (cases a; cases b) simp_all

lemma less_fin_le_refl: "Fin c < a \<Longrightarrow> a \<le> a"
  by (cases a) simp_all

section \<open>The pair-production loss rate\<close>

lemma pow2_fin: "pow2 (Fin c) = Fin (c * c)"
  by (simp add: pow2_def)

lemma pow3_fin: "pow3 (Fin c) = Fin (c ^ 3)"
  by (simp add: pow3_def power3_eq_cube)

lemma dlnGamma_dt_charge_zero:
  assumes "getPidNucleusCharge pid = 0"
  shows "dlnGamma_dt dotGamma getPidNucleusCharge pid Gamma z = NaN"
  using assms by (simp add: dlnGamma_dt_def Let_def pow2_fin times_NaN std_max_def)

lemma std_max_not_less: "\<not> std_max b (Fin 0) < Fin 0"
  by (simp add: std_max_def)

text \<open>What \<^verbatim>\<open>PairProductionLosses::dlnGamma_dt\<close> computes: the maximum of
  \<open>(1+z)\<^sup>3 * dotGamma(Gamma * (1+z)) * Z\<^sup>2/A\<close> and 0, where \<open>Z\<close> and \<open>A\<close> are both read with
  \<^verbatim>\<open>getPidNucleusCharge\<close>; the result is never less than 0, and at a non-zero charge the
  factor \<open>Z\<^sup>2/A\<close> is the charge.\<close>

lemma dlnGamma_dt_formula:
  "dlnGamma_dt dotGamma getPidNucleusCharge pid Gamma z =
     std_max (pow3 (Fin 1 + z) * dotGamma (Gamma * (Fin 1 + z))
                * (pow2 (Fin (real_of_int (getPidNucleusCharge pid)))
                     / Fin (real_of_int (getPidNucleusCharge pid))))
             (Fin 0)
   \<and> \<not> dlnGamma_dt dotGamma getPidNucleusCharge pid Gamma z < Fin 0
   \<and> (getPidNucleusCharge pid \<noteq> 0 \<longrightarrow>
         pow2 (Fin (real_of_int (getPidNucleusCharge pid)))
           / Fin (real_of_int (getPidNucleusCharge pid))
         = Fin (real_of_int (getPidNucleusCharge pid)))
   \<and> (\<forall>x. z = Fin x \<longrightarrow> pow3 (Fin 1 + z) = Fin ((1 + x) ^ 3))"
  by (simp add: dlnGamma_dt_def Let_def std_max_not_less pow2_fin pow3_fin)

text \<open>At charge 26, redshift 1 and \<open>dotGamma = 1\<close> the factor is 26 and the rate is
  \<open>2\<^sup>3 * 26 = 208\<close>.\<close>

lemma dlnGamma_dt_formula_example:
  "constantCharge 26 1 \<noteq> 0
   \<and> pow2 (Fin (real_of_int (constantCharge 26 1))) / Fin (real_of_int (constantCharge 26 1)) = Fin 26
   \<and> dlnGamma_dt unitDotGamma (constantCharge 26) 1 (Fin (10 ^ 12)) (Fin 1) = Fin 208"
proof -
  have "dlnGamma_dt unitDotGamma (constantCharge 26) 1 (Fin (10 ^ 12)) (Fin 1) = Fin 208"
    using dlnGamma_dt_formula[of unitDotGamma "constantCharge 26" 1 "Fin (10 ^ 12)" "Fin 1"]
    by (simp add: constantCharge_def unitDotGamma_def std_max_def pow2_fin pow3_fin)
  then show ?thesis
    using dlnGamma_dt_formula[of unitDotGamma "constantCharge 26" 1 "Fin (10 ^ 12)" "Fin 1"]
    by (simp add: constantCharge_def)
qed

text \<open>Claim C6 says that for every pid the rate is the clamped value
  \<open>max(0, (1+z)\<^sup>3 * dotGamma(Gamma * (1+z)) * Z\<^sup>2/A)\<close>, never negative, with \<open>Z\<^sup>2/A\<close> equal to
  the charge \<open>Z\<close>. At a pid whose charge is 0 the code does otherwise: \<open>A\<close> is read with
  the charge accessor, so the factor is \<open>0/0\<close>, which is NaN; the product is NaN, and
  \<^verbatim>\<open>std::max(b_l, 0.)\<close> returns its first argument, NaN, which is not \<open>\<ge> 0\<close> and not
  the value 0 of the claim.\<close>

theorem pair_production_rate_charge_zero:
  assumes "getPidNucleusCharge pid = 0"
  shows "pow2 (Fin (real_of_int (getPidNucleusCharge pid)))
           / Fin (real_of_int (getPidNucleusCharge pid)) = NaN
         \<and> dlnGamma_dt dotGamma getPidNucleusCharge pid Gamma z = NaN
         \<and> \<not> Fin 0 \<le> dlnGamma_dt dotGamma getPidNucleusCharge pid Gamma z"
  using assms by (simp add: dlnGamma_dt_charge_zero pow2_fin)

text \<open>A particle of charge 0 at redshift 1 with \<open>dotGamma = 1\<close>: the rate is NaN, where
  the claimed value is \<open>max(2\<^sup>3 * 1 * 0, 0) = 0\<close>.\<close>

theorem pair_production_rate_charge_zero_witness:
  "constantCharge 0 1 = 0
   \<and> dlnGamma_dt unitDotGamma (constantCharge 0) 1 (Fin (10 ^ 12)) (Fin 1) = NaN
   \<and> \<not> Fin 0 \<le> dlnGamma_dt unitDotGamma (constantCharge 0) 1 (Fin (10 ^ 12)) (Fin 1)
   \<and> std_max (pow3 (Fin 1 + Fin 1) * unitDotGamma (Fin (10 ^ 12) * (Fin 1 + Fin 1))
                * Fin (real_of_int (constantCharge 0 1)))
              (Fin 0) = Fin 0"
proof -
  have c: "constantCharge 0 1 = 0" by (simp add: constantCharge_def)
  have "std_max (pow3 (Fin 1 + Fin 1) * unitDotGamma (Fin (10 ^ 12) * (Fin 1 + Fin 1))
                * Fin (real_of_int (constantCharge 0 1)))
              (Fin 0) = Fin 0"
    by (simp add: constantCharge_def unitDotGamma_def std_max_def pow3_fin)
  then show ?thesis
    using pair_production_rate_charge_zero[where getPidNucleusCharge = "constantCharge 0"
        and pid = 1 and dotGamma = unitDotGamma and Gamma = "Fin (10 ^ 12)" and z = "Fin 1", OF c] c
    by blast
qed

section \<open>The Lorentz factor after a continuous step\<close>

text \<open>Where the rates at the three nodes of the quadrature and \<open>dt/dz\<close> are non-negative
  numbers, the loss of a continuous step is a non-negative number and the Lorentz factor
  does not increase; when the step is the whole remaining range the loss is at most the
  critical threshold.\<close>

lemma foldl_nonneg_losses:
  assumes "\<forall>losses \<in> set ls. \<exists>x. 0 \<le> x \<and> losses pid Gamma z = Fin x" and "0 \<le> a"
  shows "\<exists>y. 0 \<le> y \<and> foldl (\<lambda>total losses. total + losses pid Gamma z) (Fin a) ls = Fin y"
  using assms
proof (induction ls arbitrary: a)
  case Nil
  then show ?case by simp
next
  case (Cons l ls)
  then obtain x where x: "0 \<le> x" "l pid Gamma z = Fin x" by auto
  have "0 \<le> a + x" using Cons.prems(2) x(1) by simp
  with Cons.IH[of "a + x"] Cons.prems(1) x(2) show ?case by simp
qed

lemma nonneg_losses_deltaGamma:
  assumes "\<forall>losses \<in> set (m_continuousLosses ev).
             \<forall>z' \<in> {getRedshift particle, getRedshift particle - Fin d / Fin 2,
                     getRedshift particle - Fin d}.
               \<exists>x. 0 \<le> x \<and> losses (getPid particle) (getGamma particle) z' = Fin x"
    and "m_cosmology_dtdz ev (getRedshift particle) = Fin t" and "0 \<le> t" and "0 \<le> d"
  shows "\<exists>\<delta>. 0 \<le> \<delta> \<and> computeDeltaGamma ev particle (Fin d) = Fin \<delta>"
proof -
  let ?R = "\<lambda>z'. foldl (\<lambda>total losses. total + losses (getPid particle) (getGamma particle) z')
                (Fin 0) (m_continuousLosses ev)"
  have R: "\<exists>y. 0 \<le> y \<and> ?R z' = Fin y"
    if "z' \<in> {getRedshift particle, getRedshift particle - Fin d / Fin 2,
                getRedshift particle - Fin d}" for z'
    using assms(1) that by (intro foldl_nonneg_losses) auto
  obtain a where a: "0 \<le> a" "?R (getRedshift particle) = Fin a"
    using R by blast
  obtain b where b: "0 \<le> b" "?R (getRedshift particle - Fin d / Fin 2) = Fin b"
    using R by blast
  obtain c where c: "0 \<le> c" "?R (getRedshift particle - Fin d) = Fin c"
    using R by blast
  have "computeDeltaGamma ev particle (Fin d) = Fin d / Fin 6 * Fin t * (Fin a + Fin 4 * Fin b + Fin c)"
    by (simp only: computeDeltaGamma_def Let_def lossesLoop_foldl a(2) b(2) c(2) assms(2) prod.case)
  also have "\<dots> = Fin (d / 6 * t * (a + 4 * b + c))" by simp
  finally have "computeDeltaGamma ev particle (Fin d) = Fin (d / 6 * t * (a + 4 * b + c))" .
  moreover have "0 \<le> d / 6 * t * (a + 4 * b + c)"
    using a(1) b(1) c(1) assms(3,4) by simp
  ultimately show ?thesis by blast
qed

lemma continuous_step_nonincrease:
  assumes "0 < count_if (IsActive ev) (m_stack s)"
    and "it = find_if (IsActive ev) (m_stack s)"
    and "particle = m_stack s ! it"
    and "m_rng_call ev (m_rng s) = (r, rng1)"
    and "dz_s = computeStochasticRedshiftInterval ev particle r"
    and "dz_c = computeLossesRedshiftInterval ev particle"
    and "dz_s > Fin 0" and "dz_c > Fin 0" and "dz_c \<le> getRedshift particle"
    and "dz_s > dz_c \<or> dz_s > getRedshift particle"
    and "getRedshift particle = Fin z" and "getGamma particle = Fin g"
    and "m_cosmology_dtdz ev (getRedshift particle) = Fin t" and "0 \<le> t"
    and "\<forall>losses \<in> set (m_continuousLosses ev).
           \<forall>z' \<in> {getRedshift particle, getRedshift particle - dz_c / Fin 2,
                   getRedshift particle - dz_c}.
             \<exists>x. 0 \<le> x \<and> losses (getPid particle) (getGamma particle) z' = Fin x"
  shows "\<exists>s' \<delta>. iteration ev s = Inr s'
           \<and> computeDeltaGamma ev particle dz_c = Fin \<delta> \<and> 0 \<le> \<delta>
           \<and> getGamma (m_stack s' ! it) = Fin (g * (1 - \<delta>)) \<and> g * (1 - \<delta>) \<le> g
           \<and> (\<not> computeDeltaGamma ev particle (getRedshift particle) > deltaGammaCritical \<longrightarrow>
                 dz_c = getRedshift particle \<and> \<delta> \<le> 0.1)"
proof -
  have found: "it < length (m_stack s)" "IsActive ev particle"
    using find_if_active[OF assms(1)] assms(2,3) by simp_all
  have g: "0 \<le> g"
    using found(2) assms(12) by (simp add: IsActive_def)
  obtain d where d: "dz_c = Fin d" "0 < d"
    using assms(8,9,11) by (cases dz_c) simp_all
  obtain \<delta> where \<delta>: "0 \<le> \<delta>" "computeDeltaGamma ev particle dz_c = Fin \<delta>"
    using nonneg_losses_deltaGamma[OF _ assms(13,14), of d] assms(15) d by auto
  let ?s' = "s\<lparr>m_stack := (m_stack s)
                     [it := particle\<lparr>getRedshift := getRedshift particle - dz_c,
                                      getGamma := getGamma particle
                                           * (Fin 1 - computeDeltaGamma ev particle dz_c)\<rparr>],
                   m_rng := rng1, out := out s @ [particle]\<rparr>"
  have step: "iteration ev s = Inr ?s'"
    using iteration_active[OF assms(1-4)] assms(5-10) by simp
  have gamma: "getGamma (m_stack ?s' ! it) = Fin (g * (1 - \<delta>))"
    using found(1) \<delta>(2) assms(12) by (simp add: fin_minus)
  have le: "g * (1 - \<delta>) \<le> g"
    using g \<delta>(1) by (simp add: mult_left_le)
  have full: "dz_c = getRedshift particle \<and> \<delta> \<le> 0.1"
    if "\<not> computeDeltaGamma ev particle (getRedshift particle) > deltaGammaCritical"
  proof -
    have "dz_c = getRedshift particle"
      using that assms(6) by (simp add: computeLossesRedshiftInterval_def Let_def)
    with that \<delta>(2) show ?thesis by (simp add: deltaGammaCritical_def)
  qed
  show ?thesis
    using step \<delta> gamma le full by blast
qed

lemma continuous_step_nonincrease_example:
  "IsActive (exampleEvolutor [constantLoss (1 / 100)] (Fin (1 / 2)) (Fin (1 - exp (- 1)))) exampleProton
   \<and> computeStochasticRedshiftInterval
        (exampleEvolutor [constantLoss (1 / 100)] (Fin (1 / 2)) (Fin (1 - exp (- 1))))
        exampleProton (Fin (1 - exp (- 1))) = Fin 2
   \<and> computeLossesRedshiftInterval
        (exampleEvolutor [constantLoss (1 / 100)] (Fin (1 / 2)) (Fin (1 - exp (- 1))))
        exampleProton = Fin 1
   \<and> computeDeltaGamma
        (exampleEvolutor [constantLoss (1 / 100)] (Fin (1 / 2)) (Fin (1 - exp (- 1))))
        exampleProton (Fin 1) = Fin (1 / 100)
   \<and> (\<exists>s'. iteration (exampleEvolutor [constantLoss (1 / 100)] (Fin (1 / 2)) (Fin (1 - exp (- 1))))
               exampleState = Inr s'
           \<and> getGamma (m_stack s' ! 0) = Fin (10 ^ 12 * (1 - 1 / 100))
           \<and> getGamma (m_stack s' ! 0) \<le> getGamma exampleProton)"
proof -
  let ?ev = "exampleEvolutor [constantLoss (1 / 100)] (Fin (1 / 2)) (Fin (1 - exp (- 1)))"
  have s: "computeStochasticRedshiftInterval ?ev exampleProton (Fin (1 - exp (- 1))) = Fin 2"
    and c: "computeLossesRedshiftInterval ?ev exampleProton = Fin 1"
    and d: "computeDeltaGamma ?ev exampleProton (Fin 1) = Fin (1 / 100)"
    and act: "IsActive ?ev exampleProton"
    by (simp_all add: example_defs)
  have a: "0 < count_if (IsActive ?ev) (m_stack exampleState)"
    and i: "0 = find_if (IsActive ?ev) (m_stack exampleState)"
    by (simp_all add: example_defs)
  have p: "exampleProton = m_stack exampleState ! 0"
    and z: "getRedshift exampleProton = Fin 1"
    and g: "getGamma exampleProton = Fin (10 ^ 12)"
    by (simp_all add: exampleState_def exampleProton_def)
  have r: "m_rng_call ?ev (m_rng exampleState) = (Fin (1 - exp (- 1)), ())"
    and t: "m_cosmology_dtdz ?ev (getRedshift exampleProton) = Fin 1"
    by (simp_all add: exampleEvolutor_def)
  have l: "\<forall>losses \<in> set (m_continuousLosses ?ev).
              \<forall>z' \<in> {getRedshift exampleProton, getRedshift exampleProton - Fin 1 / Fin 2,
                      getRedshift exampleProton - Fin 1}.
                \<exists>x. 0 \<le> x \<and> losses (getPid exampleProton) (getGamma exampleProton) z' = Fin x"
    by (auto simp: exampleEvolutor_def constantLoss_def intro!: exI[of _ "1 / 100"])
  have pos: "(0::real) \<le> 1" by simp
  have "\<exists>s' \<delta>. iteration ?ev exampleState = Inr s'
           \<and> computeDeltaGamma ?ev exampleProton (Fin 1) = Fin \<delta> \<and> 0 \<le> \<delta>
           \<and> getGamma (m_stack s' ! 0) = Fin (10 ^ 12 * (1 - \<delta>)) \<and> 10 ^ 12 * (1 - \<delta>) \<le> 10 ^ 12
           \<and> (\<not> computeDeltaGamma ?ev exampleProton (getRedshift exampleProton) > deltaGammaCritical \<longrightarrow>
                 Fin 1 = getRedshift exampleProton \<and> \<delta> \<le> 0.1)"
    using continuous_step_nonincrease[OF a i p r s[symmetric] c[symmetric] _ _ _ _ z g t pos l] z
    by simp
  then obtain s' \<delta> where s': "iteration ?ev exampleState = Inr s'"
      "computeDeltaGamma ?ev exampleProton (Fin 1) = Fin \<delta>"
      "getGamma (m_stack s' ! 0) = Fin (10 ^ 12 * (1 - \<delta>))" "10 ^ 12 * (1 - \<delta>) \<le> 10 ^ 12"
    by blast
  have "\<delta> = 1 / 100" using s'(2) d by simp
  then have "getGamma (m_stack s' ! 0) = Fin (10 ^ 12 * (1 - 1 / 100))
           \<and> getGamma (m_stack s' ! 0) \<le> getGamma exampleProton"
    using s'(3) g by simp
  with s'(1) s c d act show ?thesis by blast
qed

text \<open>One process with a NaN rate makes the summed rate, and the loss, NaN.\<close>

lemma foldl_from_NaN:
  "foldl (\<lambda>total losses. total + losses pid Gamma z) NaN ls = NaN"
  by (induction ls) simp_all

lemma foldl_NaN_loss:
  assumes "l \<in> set ls" and "l pid Gamma z = NaN"
  shows "foldl (\<lambda>total losses. total + losses pid Gamma z) a ls = NaN"
  using assms
proof (induction ls arbitrary: a)
  case Nil
  then show ?case by simp
next
  case (Cons x xs)
  show ?case
  proof (cases "x = l")
    case True
    then show ?thesis using Cons.prems(2) by (simp add: plus_NaN foldl_from_NaN)
  next
    case False
    then show ?thesis using Cons by simp
  qed
qed

lemma charge_zero_deltaGamma:
  assumes "dlnGamma_dt dotGamma getPidNucleusCharge \<in> set (m_continuousLosses ev)"
    and "getPidNucleusCharge (getPid particle) = 0"
  shows "computeDeltaGamma ev particle dz = NaN"
proof -
  have "foldl (\<lambda>total losses. total + losses (getPid particle) (getGamma particle) z') (Fin 0)
          (m_continuousLosses ev) = NaN" for z'
    using assms(1)
      dlnGamma_dt_charge_zero[where getPidNucleusCharge = getPidNucleusCharge
        and pid = "getPid particle", OF assms(2)]
    by (rule foldl_NaN_loss)
  then show ?thesis
    by (simp add: computeDeltaGamma_def Let_def lossesLoop_foldl times_NaN)
qed

text \<open>Claim C8 says that after every continuous-branch step the new Lorentz factor is at
  most the old one, the loss \<open>\<Delta>\<gamma>\<close> lying in \<open>[0, 0.1]\<close>. For an active particle of
  nuclear charge 0 the code does otherwise, whenever the pair-production process is
  among the configured ones and the sampled step exceeds the remaining range: the
  pair-production rate is NaN (see C6), so \<open>\<Delta>\<gamma>\<close> is NaN; NaN does not exceed the
  threshold, so the step is the whole range and both assertions hold; the continuous
  branch then stores the Lorentz factor \<open>Gamma * (1 - NaN) = NaN\<close>, which is not
  \<open>\<le> Gamma\<close>, with a \<open>\<Delta>\<gamma>\<close> that is neither \<open>\<ge> 0\<close> nor \<open>\<le> 0.1\<close>.\<close>

theorem charge_zero_continuous_step:
  assumes "0 < count_if (IsActive ev) (m_stack s)"
    and "it = find_if (IsActive ev) (m_stack s)"
    and "particle = m_stack s ! it"
    and "m_rng_call ev (m_rng s) = (r, rng1)"
    and "dlnGamma_dt dotGamma getPidNucleusCharge \<in> set (m_continuousLosses ev)"
    and "getPidNucleusCharge (getPid particle) = 0"
    and "computeStochasticRedshiftInterval ev particle r > getRedshift particle"
  shows "\<exists>s'. iteration ev s = Inr s'
           \<and> computeLossesRedshiftInterval ev particle = getRedshift particle
           \<and> computeDeltaGamma ev particle (computeLossesRedshiftInterval ev particle) = NaN
           \<and> getGamma (m_stack s' ! it) = NaN
           \<and> \<not> getGamma (m_stack s' ! it) \<le> getGamma particle
           \<and> \<not> Fin 0 \<le> computeDeltaGamma ev particle (computeLossesRedshiftInterval ev particle)
           \<and> \<not> computeDeltaGamma ev particle (computeLossesRedshiftInterval ev particle)
                 \<le> deltaGammaCritical"
proof -
  have found: "it < length (m_stack s)" "IsActive ev particle"
    using find_if_active[OF assms(1)] assms(2,3) by simp_all
  have z: "Fin (1 / 10 ^ 20) < getRedshift particle"
    using found(2) by (simp add: IsActive_def)
  have nan: "computeDeltaGamma ev particle dz = NaN" for dz
    using assms(5,6) by (rule charge_zero_deltaGamma)
  have dz_c: "computeLossesRedshiftInterval ev particle = getRedshift particle"
    by (simp add: computeLossesRedshiftInterval_def Let_def nan deltaGammaCritical_def)
  have pos: "Fin 0 < getRedshift particle"
    using z by (cases "getRedshift particle") simp_all
  have dz_s: "Fin 0 < computeStochasticRedshiftInterval ev particle r"
    using less_trans_fin[OF pos assms(7)] .
  have refl: "getRedshift particle \<le> getRedshift particle"
    using less_fin_le_refl[OF z] .
  let ?s' = "s\<lparr>m_stack := (m_stack s)
                     [it := particle\<lparr>getRedshift := getRedshift particle - getRedshift particle,
                                      getGamma := getGamma particle * (Fin 1 - NaN)\<rparr>],
                   m_rng := rng1, out := out s @ [particle]\<rparr>"
  have step: "iteration ev s = Inr ?s'"
    using iteration_active[OF assms(1-4)] dz_s pos refl assms(7) by (simp add: dz_c nan)
  have gamma: "getGamma (m_stack ?s' ! it) = NaN"
    using found(1) by (simp add: minus_double_def times_NaN)
  show ?thesis
    using step gamma by (simp add: dz_c nan)
qed

text \<open>The particle of \<^verbatim>\<open>main\<close> read as having charge 0, with the pair-production
  process and a second process that stands for the adiabatic losses, and mean free path
  2: the step is the whole range and the Lorentz factor stored is NaN.\<close>

theorem charge_zero_continuous_step_witness:
  "IsActive (exampleEvolutor [dlnGamma_dt unitDotGamma (constantCharge 0), constantLoss (1 / 100)]
                (Fin (1 / 2)) (Fin (1 - exp (- 1)))) exampleProton
   \<and> constantCharge 0 (getPid exampleProton) = 0
   \<and> computeStochasticRedshiftInterval
        (exampleEvolutor [dlnGamma_dt unitDotGamma (constantCharge 0), constantLoss (1 / 100)]
           (Fin (1 / 2)) (Fin (1 - exp (- 1))))
        exampleProton (Fin (1 - exp (- 1))) = Fin 2
   \<and> computeLossesRedshiftInterval
        (exampleEvolutor [dlnGamma_dt unitDotGamma (constantCharge 0), constantLoss (1 / 100)]
           (Fin (1 / 2)) (Fin (1 - exp (- 1))))
        exampleProton = Fin 1
   \<and> iteration
        (exampleEvolutor [dlnGamma_dt unitDotGamma (constantCharge 0), constantLoss (1 / 100)]
           (Fin (1 / 2)) (Fin (1 - exp (- 1))))
        exampleState =
      Inr \<lparr>m_stack = [\<lparr>getPid = 1, getRedshift = Fin 0, getGamma = NaN\<rparr>],
           m_rng = (), out = [exampleProton]\<rparr>"
proof -
  let ?ev = "exampleEvolutor [dlnGamma_dt unitDotGamma (constantCharge 0), constantLoss (1 / 100)]
                (Fin (1 / 2)) (Fin (1 - exp (- 1)))"
  have act: "IsActive ?ev exampleProton"
    and s: "computeStochasticRedshiftInterval ?ev exampleProton (Fin (1 - exp (- 1))) = Fin 2"
    by (simp_all add: example_defs)
  have a: "0 < count_if (IsActive ?ev) (m_stack exampleState)"
    and i: "0 = find_if (IsActive ?ev) (m_stack exampleState)"
    by (simp_all add: example_defs)
  have p: "exampleProton = m_stack exampleState ! 0"
    by (simp add: exampleState_def)
  have r: "m_rng_call ?ev (m_rng exampleState) = (Fin (1 - exp (- 1)), ())"
    and l: "dlnGamma_dt unitDotGamma (constantCharge 0) \<in> set (m_continuousLosses ?ev)"
    by (simp_all add: exampleEvolutor_def)
  have c: "constantCharge 0 (getPid exampleProton) = 0"
    by (simp add: constantCharge_def)
  have far: "computeStochasticRedshiftInterval ?ev exampleProton (Fin (1 - exp (- 1)))
               > getRedshift exampleProton"
    unfolding s by (simp add: exampleProton_def)
  obtain s' where s': "iteration ?ev exampleState = Inr s'"
      "computeLossesRedshiftInterval ?ev exampleProton = getRedshift exampleProton"
      "getGamma (m_stack s' ! 0) = NaN"
    using charge_zero_continuous_step[where getPidNucleusCharge = "constantCharge 0",
        OF a i p r l c far] by blast
  have "iteration ?ev exampleState =
      Inr \<lparr>m_stack = [\<lparr>getPid = 1, getRedshift = Fin 0, getGamma = NaN\<rparr>],
           m_rng = (), out = [exampleProton]\<rparr>"
    using iteration_active[OF a i p r] s s'(2)
      charge_zero_deltaGamma[where getPidNucleusCharge = "constantCharge 0", OF l c]
    by (simp add: exampleState_def exampleProton_def fin_minus times_NaN minus_double_def)
  moreover have "computeLossesRedshiftInterval ?ev exampleProton = Fin 1"
    using s'(2) by (simp add: exampleProton_def)
  ultimately show ?thesis using act c s by blast
qed

end
